theory Spec2Isabelle
  imports Main
begin

section \<open>The Xcode Cloud client of \<^verbatim>\<open>xcode_cloud_automation.py\<close>\<close>

text \<open>
  The class \<^verbatim>\<open>XcodeCloudAutomation\<close> is embedded with explicit state passing.
  The instance attributes are the record \<open>client\<close>. Everything outside the
  interpreter is the record \<open>world\<close>: the clock, the file system, the answers
  of the libraries \<^verbatim>\<open>jwt\<close>, \<^verbatim>\<open>requests\<close> and \<^verbatim>\<open>json\<close>, and a log of
  the effects performed so far. Every \<^verbatim>\<open>raise\<close> of the source and of the library
  calls it makes is a value \<open>Inl e\<close> of the result.
\<close>

subsection \<open>JSON values and Python dictionaries\<close>

text \<open>
  A Python \<^verbatim>\<open>dict\<close> built by the source keeps its insertion order, so an object
  is an association list.
\<close>

datatype json =
    JNull
  | JBool bool
  | JNum int
  | JStr string
  | JArr "json list"
  | JObj "(string \<times> json) list"

datatype error =
    OSError string
  | JwtError
  | ValueError string
  | RequestException
  | HTTPError int string
  | JSONDecodeError
  | AttributeError

text \<open>
  \<^verbatim>\<open>response.get('data', default)\<close>: a lookup with a default on a \<^verbatim>\<open>dict\<close>; any other
  JSON value (a list, a string, a number, \<^verbatim>\<open>None\<close>) has no method \<^verbatim>\<open>get\<close>.
\<close>

fun py_get :: "json \<Rightarrow> string \<Rightarrow> json \<Rightarrow> error + json" where
  "py_get (JObj kvs) k d = Inr (case map_of kvs k of None \<Rightarrow> d | Some v \<Rightarrow> v)"
| "py_get _ k d = Inl AttributeError"

text \<open>
  Truthiness of an optional string argument (\<^verbatim>\<open>if branch:\<close>): \<^verbatim>\<open>None\<close> and the
  empty string are false.
\<close>

fun truthy :: "string option \<Rightarrow> bool" where
  "truthy None = False"
| "truthy (Some s) = (s \<noteq> [])"

text \<open>\<^verbatim>\<open>str(n)\<close> of a Python \<^verbatim>\<open>int\<close>, as the f-string \<^verbatim>\<open>f"?limit={limit}"\<close> formats it.\<close>

definition digit_char :: "nat \<Rightarrow> char" where
  "digit_char d = ''0123456789'' ! d"

fun str_nat :: "nat \<Rightarrow> string" where
  "str_nat n = (if n < 10 then [digit_char n] else str_nat (n div 10) @ [digit_char (n mod 10)])"

declare str_nat.simps [simp del]

definition str_int :: "int \<Rightarrow> string" where
  "str_int i = (if i < 0 then CHR ''-'' # str_nat (nat (- i)) else str_nat (nat i))"

subsection \<open>The world and the client\<close>

record request =
  rq_method :: string
  rq_url :: string
  rq_headers :: "(string \<times> string) list"
  rq_json :: "json option"
  rq_stream :: bool

record response =
  status_code :: int
  content :: string

text \<open>
  The effects a call performs, in order: a call of \<^verbatim>\<open>jwt.encode\<close> with its four
  arguments and its result, an HTTP request with the clock reading at which it was sent,
  and a \<^verbatim>\<open>f.write(chunk)\<close> on an opened path.
\<close>

datatype event =
    Signed "string option" json string string json
  | Sent int request
  | Wrote string string

text \<open>
  Times are microseconds. The source reads two clocks, \<^verbatim>\<open>time.time()\<close> and
  \<^verbatim>\<open>datetime.now()\<close>; the model takes them to show the same instant \<open>now\<close> during
  one call of a method.

  \<open>files\<close> is the file system, \<open>writable\<close> says whether \<^verbatim>\<open>open(path, 'wb')\<close>
  succeeds. \<open>jwt_encode\<close> is \<^verbatim>\<open>jwt.encode(payload, key, algorithm, headers)\<close>
  (\<open>None\<close>: it raises), \<open>http\<close> is the exchange done by \<^verbatim>\<open>requests\<close> (\<open>None\<close>: a
  transport error), \<open>json_loads\<close> is the parser behind \<^verbatim>\<open>response.json()\<close> (\<open>None\<close>:
  the body is not JSON).
\<close>

record world =
  now :: int
  files :: "string \<rightharpoonup> string"
  writable :: "string \<Rightarrow> bool"
  jwt_encode :: "json \<Rightarrow> string \<Rightarrow> string \<Rightarrow> json \<Rightarrow> string option"
  http :: "request \<Rightarrow> response option"
  json_loads :: "string \<Rightarrow> json option"
  log :: "event list"

record client =
  issuer_id :: string
  key_id :: string
  private_key_path :: string
  app_id :: string
  base_url :: string
  token :: "string option"
  token_expiry :: "int option"

definition init :: "string \<Rightarrow> string \<Rightarrow> string \<Rightarrow> string \<Rightarrow> client" where
  "init issuer kid path app =
     \<lparr> issuer_id = issuer, key_id = kid, private_key_path = path, app_id = app,
       base_url = ''https://api.appstoreconnect.apple.com/v1'',
       token = None, token_expiry = None \<rparr>"

subsection \<open>\<^verbatim>\<open>_generate_jwt_token\<close>\<close>

text \<open>\<^verbatim>\<open>int(time.time())\<close>: whole seconds, truncated towards zero.\<close>

definition time_time_int :: "world \<Rightarrow> int" where
  "time_time_int w =
     (if 0 \<le> now w then now w div 1000000 else - ((- now w) div 1000000))"

text \<open>\<^verbatim>\<open>timedelta(minutes=19)\<close> in microseconds.\<close>

definition minutes19 :: int where
  "minutes19 = 19 * 60 * 1000000"

definition jwt_payload :: "world \<Rightarrow> client \<Rightarrow> json" where
  "jwt_payload w c =
     JObj [(''iss'', JStr (issuer_id c)),
           (''iat'', JNum (time_time_int w)),
           (''exp'', JNum (time_time_int w + 1200)),
           (''aud'', JStr ''appstoreconnect-v1'')]"

definition jwt_headers :: "client \<Rightarrow> json" where
  "jwt_headers c = JObj [(''kid'', JStr (key_id c)), (''typ'', JStr ''JWT'')]"

text \<open>
  Lines 38 to 57: read the key, build the payload, sign, store the token and the instant
  at which it is to be replaced. A failing \<^verbatim>\<open>open\<close> or \<^verbatim>\<open>jwt.encode\<close> leaves the
  attributes as they were.
\<close>

definition sign_token :: "world \<Rightarrow> client \<Rightarrow> (error + string) \<times> world \<times> client" where
  "sign_token w c =
     (case files w (private_key_path c) of
        None \<Rightarrow> (Inl (OSError (private_key_path c)), w, c)
      | Some private_key \<Rightarrow>
          (let payload = jwt_payload w c;
               r = jwt_encode w payload private_key ''ES256'' (jwt_headers c);
               w' = w\<lparr>log := log w @ [Signed r payload private_key ''ES256'' (jwt_headers c)]\<rparr>
           in case r of
                None \<Rightarrow> (Inl JwtError, w', c)
              | Some tok \<Rightarrow>
                  (Inr tok, w', c\<lparr>token := Some tok, token_expiry := Some (now w + minutes19)\<rparr>)))"

text \<open>
  Line 35: \<^verbatim>\<open>if self.token and self.token_expiry and datetime.now() < self.token_expiry\<close>.
  A \<^verbatim>\<open>datetime\<close> is always true, a string is true when it is not empty.
\<close>

definition generate_jwt_token :: "world \<Rightarrow> client \<Rightarrow> (error + string) \<times> world \<times> client" where
  "generate_jwt_token w c =
     (case token c of
        None \<Rightarrow> sign_token w c
      | Some t \<Rightarrow>
          (case token_expiry c of
             None \<Rightarrow> sign_token w c
           | Some e \<Rightarrow> if t \<noteq> [] \<and> now w < e then (Inr t, w, c) else sign_token w c))"

subsection \<open>\<^verbatim>\<open>_make_request\<close>\<close>

text \<open>
  \<^verbatim>\<open>requests.get/post/delete\<close>: the request goes out (it is logged), and the
  library hands back a response or raises.
\<close>

definition requests_send :: "world \<Rightarrow> request \<Rightarrow> response option \<times> world" where
  "requests_send w rq = (http w rq, w\<lparr>log := log w @ [Sent (now w) rq]\<rparr>)"

text \<open>
  \<^verbatim>\<open>response.raise_for_status()\<close> of \<^verbatim>\<open>requests\<close> raises \<^verbatim>\<open>HTTPError\<close>, which
  carries the response, exactly for a status from 400 to 599.
\<close>

definition raise_for_status :: "response \<Rightarrow> error option" where
  "raise_for_status r =
     (if 400 \<le> status_code r \<and> status_code r < 600
      then Some (HTTPError (status_code r) (content r)) else None)"

definition response_json :: "world \<Rightarrow> response \<Rightarrow> error + json" where
  "response_json w r =
     (case json_loads w (content r) of None \<Rightarrow> Inl JSONDecodeError | Some j \<Rightarrow> Inr j)"

text \<open>Lines 78 and 79, after the exchange.\<close>

definition finish_request :: "world \<Rightarrow> response option \<Rightarrow> error + json" where
  "finish_request w ro =
     (case ro of
        None \<Rightarrow> Inl RequestException
      | Some r \<Rightarrow>
          (case raise_for_status r of
             Some e \<Rightarrow> Inl e
           | None \<Rightarrow> response_json w r))"

definition auth_headers :: "string \<Rightarrow> (string \<times> string) list" where
  "auth_headers tok =
     [(''Authorization'', ''Bearer '' @ tok), (''Content-Type'', ''application/json'')]"

definition make_request ::
  "world \<Rightarrow> client \<Rightarrow> string \<Rightarrow> string \<Rightarrow> json option \<Rightarrow> (error + json) \<times> world \<times> client" where
  "make_request w c endpoint method data =
     (case generate_jwt_token w c of
        (Inl e, w1, c1) \<Rightarrow> (Inl e, w1, c1)
      | (Inr tok, w1, c1) \<Rightarrow>
          (let headers = auth_headers tok;
               url = base_url c1 @ endpoint
           in if method = ''GET'' then
                (case requests_send w1 \<lparr>rq_method = ''GET'', rq_url = url, rq_headers = headers,
                                        rq_json = None, rq_stream = False\<rparr> of
                   (ro, w2) \<Rightarrow> (finish_request w2 ro, w2, c1))
              else if method = ''POST'' then
                (case requests_send w1 \<lparr>rq_method = ''POST'', rq_url = url, rq_headers = headers,
                                        rq_json = data, rq_stream = False\<rparr> of
                   (ro, w2) \<Rightarrow> (finish_request w2 ro, w2, c1))
              else if method = ''DELETE'' then
                (case requests_send w1 \<lparr>rq_method = ''DELETE'', rq_url = url, rq_headers = headers,
                                        rq_json = None, rq_stream = False\<rparr> of
                   (ro, w2) \<Rightarrow> (finish_request w2 ro, w2, c1))
              else (Inl (ValueError (''Unsupported method: '' @ method)), w1, c1)))"

subsection \<open>The resource operations\<close>

text \<open>
  Each method computes its endpoint, calls \<^verbatim>\<open>_make_request\<close> and returns
  \<^verbatim>\<open>response.get('data', default)\<close>. \<open>with_data\<close> is that last line.
\<close>

definition with_data ::
  "json \<Rightarrow> (error + json) \<times> world \<times> client \<Rightarrow> (error + json) \<times> world \<times> client" where
  "with_data d r =
     (case r of
        (Inl e, w, c) \<Rightarrow> (Inl e, w, c)
      | (Inr resp, w, c) \<Rightarrow> (py_get resp ''data'' d, w, c))"

definition list_workflows :: "world \<Rightarrow> client \<Rightarrow> (error + json) \<times> world \<times> client" where
  "list_workflows w c =
     with_data (JArr []) (make_request w c (''/apps/'' @ app_id c @ ''/ciWorkflows'') ''GET'' None)"

definition get_workflow :: "world \<Rightarrow> client \<Rightarrow> string \<Rightarrow> (error + json) \<times> world \<times> client" where
  "get_workflow w c workflow_id =
     with_data (JObj []) (make_request w c (''/ciWorkflows/'' @ workflow_id) ''GET'' None)"

text \<open>
  \<^verbatim>\<open>list_builds(workflow_id=None, limit=20)\<close>: an argument left out is \<open>None\<close> here, and
  \<open>limit\<close> then takes its default.
\<close>

definition list_builds_endpoint :: "client \<Rightarrow> string option \<Rightarrow> int option \<Rightarrow> string" where
  "list_builds_endpoint c workflow_id limit =
     (if truthy workflow_id then ''/ciWorkflows/'' @ the workflow_id @ ''/builds''
      else ''/apps/'' @ app_id c @ ''/ciBuildRuns'')
     @ ''?limit='' @ str_int (case limit of None \<Rightarrow> 20 | Some l \<Rightarrow> l)"

definition list_builds ::
  "world \<Rightarrow> client \<Rightarrow> string option \<Rightarrow> int option \<Rightarrow> (error + json) \<times> world \<times> client" where
  "list_builds w c workflow_id limit =
     with_data (JArr []) (make_request w c (list_builds_endpoint c workflow_id limit) ''GET'' None)"

definition get_build :: "world \<Rightarrow> client \<Rightarrow> string \<Rightarrow> (error + json) \<times> world \<times> client" where
  "get_build w c build_id =
     with_data (JObj []) (make_request w c (''/ciBuildRuns/'' @ build_id) ''GET'' None)"

text \<open>Lines 114 to 126: the body of the creation request.\<close>

definition trigger_attributes ::
  "string option \<Rightarrow> string option \<Rightarrow> string option \<Rightarrow> (string \<times> json) list" where
  "trigger_attributes branch tag commit =
     (if truthy branch then [(''branch'', JStr (the branch))]
      else if truthy tag then [(''tag'', JStr (the tag))]
      else if truthy commit then [(''commit'', JStr (the commit))]
      else [])"

definition trigger_data :: "string option \<Rightarrow> string option \<Rightarrow> string option \<Rightarrow> json" where
  "trigger_data branch tag commit =
     JObj [(''data'', JObj [(''type'', JStr ''ciBuildRuns''),
                            (''attributes'', JObj (trigger_attributes branch tag commit))])]"

definition trigger_build ::
  "world \<Rightarrow> client \<Rightarrow> string \<Rightarrow> string option \<Rightarrow> string option \<Rightarrow> string option
     \<Rightarrow> (error + json) \<times> world \<times> client" where
  "trigger_build w c workflow_id branch tag commit =
     with_data (JObj [])
       (make_request w c (''/ciWorkflows/'' @ workflow_id @ ''/builds'') ''POST''
          (Some (trigger_data branch tag commit)))"

definition cancel_data :: "string \<Rightarrow> json" where
  "cancel_data build_id =
     JObj [(''data'', JObj [(''type'', JStr ''ciBuildRuns''),
                            (''id'', JStr build_id),
                            (''attributes'', JObj [(''canceled'', JBool True)])])]"

definition cancel_build :: "world \<Rightarrow> client \<Rightarrow> string \<Rightarrow> (error + json) \<times> world \<times> client" where
  "cancel_build w c build_id =
     with_data (JObj [])
       (make_request w c (''/ciBuildRuns/'' @ build_id) ''PATCH'' (Some (cancel_data build_id)))"

definition retry_build :: "world \<Rightarrow> client \<Rightarrow> string \<Rightarrow> (error + json) \<times> world \<times> client" where
  "retry_build w c build_id =
     with_data (JObj []) (make_request w c (''/ciBuildRuns/'' @ build_id @ ''/retry'') ''POST'' None)"

definition get_build_artifacts :: "world \<Rightarrow> client \<Rightarrow> string \<Rightarrow> (error + json) \<times> world \<times> client" where
  "get_build_artifacts w c build_id =
     with_data (JArr []) (make_request w c (''/ciBuildRuns/'' @ build_id @ ''/artifacts'') ''GET'' None)"

subsection \<open>\<^verbatim>\<open>download_artifact\<close>\<close>

text \<open>
  \<^verbatim>\<open>response.iter_content(chunk_size=n)\<close> hands the body out in pieces of \<open>n\<close> bytes,
  the last one possibly shorter; an empty body gives no piece.
\<close>

function iter_content :: "nat \<Rightarrow> string \<Rightarrow> string list" where
  "iter_content n bs =
     (if n = 0 \<or> bs = [] then [] else take n bs # iter_content n (drop n bs))"
  by pat_completeness auto
termination
  by (relation "measure (\<lambda>(n, bs). length bs)") auto

declare iter_content.simps [simp del]

text \<open>
  \<^verbatim>\<open>open(output_path, 'wb')\<close> empties the file; every \<^verbatim>\<open>f.write(chunk)\<close> appends to it.
\<close>

definition open_wb :: "world \<Rightarrow> string \<Rightarrow> world" where
  "open_wb w path = w\<lparr>files := (files w)(path \<mapsto> [])\<rparr>"

definition f_write :: "world \<Rightarrow> string \<Rightarrow> string \<Rightarrow> world" where
  "f_write w path chunk =
     w\<lparr>files := (files w)(path \<mapsto> (case files w path of None \<Rightarrow> [] | Some old \<Rightarrow> old) @ chunk),
       log := log w @ [Wrote path chunk]\<rparr>"

text \<open>The loop of lines 168 and 169.\<close>

fun write_chunks :: "world \<Rightarrow> string \<Rightarrow> string list \<Rightarrow> world" where
  "write_chunks w path [] = w"
| "write_chunks w path (chunk # chunks) = write_chunks (f_write w path chunk) path chunks"

definition download_artifact ::
  "world \<Rightarrow> client \<Rightarrow> string \<Rightarrow> string \<Rightarrow> (error + json) \<times> world \<times> client" where
  "download_artifact w c artifact_id output_path =
     (case generate_jwt_token w c of
        (Inl e, w1, c1) \<Rightarrow> (Inl e, w1, c1)
      | (Inr tok, w1, c1) \<Rightarrow>
          (case requests_send w1
                  \<lparr>rq_method = ''GET'',
                   rq_url = base_url c1 @ ''/ciArtifacts/'' @ artifact_id @ ''/download'',
                   rq_headers = [(''Authorization'', ''Bearer '' @ tok)],
                   rq_json = None, rq_stream = True\<rparr> of
             (None, w2) \<Rightarrow> (Inl RequestException, w2, c1)
           | (Some r, w2) \<Rightarrow>
               (case raise_for_status r of
                  Some e \<Rightarrow> (Inl e, w2, c1)
                | None \<Rightarrow>
                    if writable w2 output_path
                    then (Inr JNull, write_chunks (open_wb w2 output_path) output_path
                                       (iter_content 8192 (content r)), c1)
                    else (Inl (OSError output_path), w2, c1))))"

subsection \<open>Sequences of calls\<close>




subsection \<open>Observers of the log\<close>

fun sent_requests :: "event list \<Rightarrow> request list" where
  "sent_requests [] = []"
| "sent_requests (Sent t rq # es) = rq # sent_requests es"
| "sent_requests (Signed r p k a h # es) = sent_requests es"
| "sent_requests (Wrote p b # es) = sent_requests es"

fun signed_calls :: "event list \<Rightarrow> event list" where
  "signed_calls [] = []"
| "signed_calls (Signed r p k a h # es) = Signed r p k a h # signed_calls es"
| "signed_calls (Sent t rq # es) = signed_calls es"
| "signed_calls (Wrote p b # es) = signed_calls es"

fun written_chunks :: "string \<Rightarrow> event list \<Rightarrow> string list" where
  "written_chunks path [] = []"
| "written_chunks path (Wrote p b # es) =
     (if p = path then b # written_chunks path es else written_chunks path es)"
| "written_chunks path (Sent t rq # es) = written_chunks path es"
| "written_chunks path (Signed r p k a h # es) = written_chunks path es"

subsection \<open>The tokens in the log\<close>

text \<open>
  \<open>token_exps evs tok\<close> lists the \<^verbatim>\<open>exp\<close> claims (in seconds) of the payloads that
  \<^verbatim>\<open>jwt.encode\<close> signed into the token \<open>tok\<close> in the log \<open>evs\<close>. A request sent at
  \<open>t\<close> is \<open>attached_fresh\<close> when its bearer token was signed, in the events before it, with
  an \<^verbatim>\<open>exp\<close> more than 59 seconds after \<open>t\<close>. \<open>cache_inv\<close> is the invariant of the
  attributes \<^verbatim>\<open>token\<close> and \<^verbatim>\<open>token_expiry\<close>: the stored instant is not later than 59
  seconds before an \<^verbatim>\<open>exp\<close> the stored token was signed with.
\<close>

definition payload_exp :: "json \<Rightarrow> int option" where
  "payload_exp p = (case py_get p ''exp'' JNull of Inr (JNum x) \<Rightarrow> Some x | _ \<Rightarrow> None)"

fun token_exps :: "event list \<Rightarrow> string \<Rightarrow> int list" where
  "token_exps [] tok = []"
| "token_exps (Signed r p k a h # es) tok =
     (case payload_exp p of
        Some x \<Rightarrow> if r = Some tok then x # token_exps es tok else token_exps es tok
      | None \<Rightarrow> token_exps es tok)"
| "token_exps (Sent t rq # es) tok = token_exps es tok"
| "token_exps (Wrote p b # es) tok = token_exps es tok"

definition attached_fresh :: "event list \<Rightarrow> int \<Rightarrow> request \<Rightarrow> bool" where
  "attached_fresh pre t rq =
     (\<exists>tok. map_of (rq_headers rq) ''Authorization'' = Some (''Bearer '' @ tok)
        \<and> (\<exists>x \<in> set (token_exps pre tok). t < (x - 59) * 1000000))"



subsection \<open>A concrete world\<close>

text \<open>
  A client as \<^verbatim>\<open>main\<close> builds one, and a world whose signer puts the issue time
  into the token, whose server gives one fixed answer and whose parser gives one fixed
  value.
\<close>

definition demo_client :: client where
  "demo_client = init ''iss-1'' ''key-1'' ''AuthKey.p8'' ''app-7''"

definition demo_encode :: "json \<Rightarrow> string \<Rightarrow> string \<Rightarrow> json \<Rightarrow> string option" where
  "demo_encode payload key alg hdrs =
     (case py_get payload ''iat'' JNull of
        Inr (JNum n) \<Rightarrow> Some (''jwt.'' @ str_int n)
      | _ \<Rightarrow> None)"

definition demo_world :: "int \<Rightarrow> response option \<Rightarrow> json option \<Rightarrow> world" where
  "demo_world t resp parsed =
     \<lparr> now = t, files = [''AuthKey.p8'' \<mapsto> ''PEM''], writable = (\<lambda>p. True),
       jwt_encode = demo_encode, http = (\<lambda>rq. resp), json_loads = (\<lambda>s. parsed), log = [] \<rparr>"

section \<open>Lemmas on the log and on the token\<close>

lemma sent_requests_append: "sent_requests (xs @ ys) = sent_requests xs @ sent_requests ys"
  by (induction xs rule: sent_requests.induct) simp_all

lemma signed_calls_append: "signed_calls (xs @ ys) = signed_calls xs @ signed_calls ys"
  by (induction xs rule: signed_calls.induct) simp_all

lemma written_chunks_append:
  "written_chunks p (xs @ ys) = written_chunks p xs @ written_chunks p ys"
  by (induction p xs rule: written_chunks.induct) simp_all

lemma sign_token_cases:
  assumes "sign_token w c = (r, w', c')"
  shows "(r = Inl (OSError (private_key_path c)) \<and> files w (private_key_path c) = None
            \<and> w' = w \<and> c' = c)
       \<or> (\<exists>key. files w (private_key_path c) = Some key
            \<and> jwt_encode w (jwt_payload w c) key ''ES256'' (jwt_headers c) = None
            \<and> r = Inl JwtError \<and> c' = c
            \<and> w' = w\<lparr>log := log w @ [Signed None (jwt_payload w c) key ''ES256'' (jwt_headers c)]\<rparr>)
       \<or> (\<exists>key tok. files w (private_key_path c) = Some key
            \<and> jwt_encode w (jwt_payload w c) key ''ES256'' (jwt_headers c) = Some tok
            \<and> r = Inr tok
            \<and> c' = c\<lparr>token := Some tok, token_expiry := Some (now w + minutes19)\<rparr>
            \<and> w' = w\<lparr>log := log w @ [Signed (Some tok) (jwt_payload w c) key ''ES256'' (jwt_headers c)]\<rparr>)"
  using assms unfolding sign_token_def Let_def
  by (auto split: option.splits)

lemma generate_cases:
  assumes "generate_jwt_token w c = (r, w', c')"
  shows "(\<exists>t e. token c = Some t \<and> token_expiry c = Some e \<and> t \<noteq> [] \<and> now w < e
            \<and> r = Inr t \<and> w' = w \<and> c' = c)
       \<or> sign_token w c = (r, w', c')"
  using assms unfolding generate_jwt_token_def
  by (auto split: option.splits if_splits)

lemma generate_world:
  assumes "generate_jwt_token w c = (r, w', c')"
  shows "\<exists>evs. w' = w\<lparr>log := log w @ evs\<rparr> \<and> sent_requests evs = []
            \<and> (\<forall>p. written_chunks p evs = [])"
proof -
  from generate_cases [OF assms] show ?thesis
  proof
    assume "\<exists>t e. token c = Some t \<and> token_expiry c = Some e \<and> t \<noteq> [] \<and> now w < e
            \<and> r = Inr t \<and> w' = w \<and> c' = c"
    then have "w' = w\<lparr>log := log w @ []\<rparr>" by auto
    then show ?thesis by (intro exI [of _ "[]"]) simp
  next
    assume "sign_token w c = (r, w', c')"
    from sign_token_cases [OF this] show ?thesis
    proof (elim disjE exE conjE)
      assume "w' = w"
      then have "w' = w\<lparr>log := log w @ []\<rparr>" by simp
      then show ?thesis by (intro exI [of _ "[]"]) simp
    next
      fix key assume "w' = w\<lparr>log := log w @ [Signed None (jwt_payload w c) key ''ES256'' (jwt_headers c)]\<rparr>"
      then show ?thesis by (intro exI [of _ "[Signed None (jwt_payload w c) key ''ES256'' (jwt_headers c)]"]) simp
    next
      fix key tok assume "w' = w\<lparr>log := log w @ [Signed (Some tok) (jwt_payload w c) key ''ES256'' (jwt_headers c)]\<rparr>"
      then show ?thesis by (intro exI [of _ "[Signed (Some tok) (jwt_payload w c) key ''ES256'' (jwt_headers c)]"]) simp
    qed
  qed
qed

lemma generate_sent:
  assumes "generate_jwt_token w c = (r, w', c')"
  shows "sent_requests (log w') = sent_requests (log w)"
    and "now w' = now w" and "http w' = http w" and "json_loads w' = json_loads w"
    and "files w' = files w" and "writable w' = writable w"
  using generate_world [OF assms] by (auto simp: sent_requests_append)

lemma generate_client:
  assumes "generate_jwt_token w c = (r, w', c')"
  shows "base_url c' = base_url c" and "app_id c' = app_id c"
    and "issuer_id c' = issuer_id c" and "key_id c' = key_id c"
    and "private_key_path c' = private_key_path c"
  using generate_cases [OF assms] sign_token_cases [of w c r w' c'] by auto

lemma make_request_sends:
  assumes tok: "generate_jwt_token w c = (Inr tok, w1, c1)"
    and m: "m = ''GET'' \<or> m = ''POST'' \<or> m = ''DELETE''"
  shows "make_request w c ep m d =
     (finish_request w
        (http w \<lparr>rq_method = m, rq_url = base_url c @ ep, rq_headers = auth_headers tok,
                  rq_json = (if m = ''POST'' then d else None), rq_stream = False\<rparr>),
      w1\<lparr>log := log w1 @ [Sent (now w)
           \<lparr>rq_method = m, rq_url = base_url c @ ep, rq_headers = auth_headers tok,
            rq_json = (if m = ''POST'' then d else None), rq_stream = False\<rparr>]\<rparr>,
      c1)"
proof -
  have fr: "finish_request (w1\<lparr>log := l\<rparr>) ro = finish_request w ro" for l ro
    using generate_sent(4) [OF tok]
    by (simp add: finish_request_def response_json_def split: option.splits)
  show ?thesis
    using m generate_sent(2,3) [OF tok] generate_client(1) [OF tok]
    by (auto simp: make_request_def tok requests_send_def fr Let_def)
qed

lemma make_request_token_error:
  assumes "generate_jwt_token w c = (Inl e, w1, c1)"
  shows "make_request w c ep m d = (Inl e, w1, c1)"
  by (simp add: make_request_def assms)

lemma make_request_unsupported:
  assumes "generate_jwt_token w c = (Inr tok, w1, c1)"
    and "m \<noteq> ''GET''" and "m \<noteq> ''POST''" and "m \<noteq> ''DELETE''"
  shows "make_request w c ep m d = (Inl (ValueError (''Unsupported method: '' @ m)), w1, c1)"
  using assms by (simp add: make_request_def)


lemma with_data_snd: "snd (with_data d r) = snd r"
  by (cases r) (auto simp: with_data_def split: sum.splits)

lemma with_data_Inl: "with_data d (Inl e, w, c) = (Inl e, w, c)"
  by (simp add: with_data_def)

lemma with_data_fst:
  "fst (with_data d r) =
     (case fst r of Inl e \<Rightarrow> Inl e | Inr resp \<Rightarrow> py_get resp ''data'' d)"
  by (cases r) (auto simp: with_data_def split: sum.splits)

lemma raise_for_status_None:
  "raise_for_status r = None \<longleftrightarrow> status_code r < 400 \<or> 600 \<le> status_code r"
  by (auto simp: raise_for_status_def)

lemma div_million:
  fixes x :: int
  shows "x div 1000000 * 1000000 \<le> x" and "x < x div 1000000 * 1000000 + 1000000"
proof -
  have "x = x div 1000000 * 1000000 + x mod 1000000" by simp
  moreover have "0 \<le> x mod 1000000" and "x mod 1000000 < 1000000" by simp_all
  ultimately show "x div 1000000 * 1000000 \<le> x" and "x < x div 1000000 * 1000000 + 1000000"
    by linarith+
qed


subsection \<open>The concrete world, evaluated\<close>

lemma demo_world_sel:
  "http (demo_world t resp parsed) rq = resp"
  "json_loads (demo_world t resp parsed) b = parsed"
  "now (demo_world t resp parsed) = t"
  "log (demo_world t resp parsed) = []"
  "writable (demo_world t resp parsed) p"
  by (simp_all add: demo_world_def)

lemma demo_generate:
  "generate_jwt_token (demo_world 0 resp parsed) demo_client =
     (Inr ''jwt.0'',
      demo_world 0 resp parsed
        \<lparr>log := [Signed (Some ''jwt.0'')
                  (JObj [(''iss'', JStr ''iss-1''), (''iat'', JNum 0), (''exp'', JNum 1200),
                         (''aud'', JStr ''appstoreconnect-v1'')])
                  ''PEM'' ''ES256'' (JObj [(''kid'', JStr ''key-1''), (''typ'', JStr ''JWT'')])]\<rparr>,
      demo_client\<lparr>token := Some ''jwt.0'', token_expiry := Some 1140000000\<rparr>)"
  by (simp add: generate_jwt_token_def sign_token_def demo_world_def demo_client_def init_def
      demo_encode_def jwt_payload_def jwt_headers_def Let_def time_time_int_def minutes19_def
      str_int_def str_nat.simps digit_char_def)

lemma demo_sign_0:
  "sign_token (demo_world 0 resp parsed) demo_client =
     (Inr ''jwt.0'',
      demo_world 0 resp parsed
        \<lparr>log := [Signed (Some ''jwt.0'')
                  (JObj [(''iss'', JStr ''iss-1''), (''iat'', JNum 0), (''exp'', JNum 1200),
                         (''aud'', JStr ''appstoreconnect-v1'')])
                  ''PEM'' ''ES256'' (JObj [(''kid'', JStr ''key-1''), (''typ'', JStr ''JWT'')])]\<rparr>,
      demo_client\<lparr>token := Some ''jwt.0'', token_expiry := Some 1140000000\<rparr>)"
  using demo_generate [of resp parsed]
  by (simp add: generate_jwt_token_def demo_client_def init_def)

lemma demo_sign:
  "sign_token (demo_world 5500000 resp parsed) demo_client =
     (Inr ''jwt.5'',
      demo_world 5500000 resp parsed
        \<lparr>log := [Signed (Some ''jwt.5'')
                  (JObj [(''iss'', JStr ''iss-1''), (''iat'', JNum 5), (''exp'', JNum 1205),
                         (''aud'', JStr ''appstoreconnect-v1'')])
                  ''PEM'' ''ES256'' (JObj [(''kid'', JStr ''key-1''), (''typ'', JStr ''JWT'')])]\<rparr>,
      demo_client\<lparr>token := Some ''jwt.5'', token_expiry := Some 1145500000\<rparr>)"
  by (simp add: sign_token_def demo_world_def demo_client_def init_def
      demo_encode_def jwt_payload_def jwt_headers_def Let_def time_time_int_def minutes19_def
      str_int_def str_nat.simps digit_char_def)

lemma demo_sign_1150:
  "sign_token (demo_world 1150000000 resp parsed)
      (demo_client\<lparr>token := Some ''jwt.0'', token_expiry := Some 1140000000\<rparr>) =
     (Inr ''jwt.1150'',
      demo_world 1150000000 resp parsed
        \<lparr>log := [Signed (Some ''jwt.1150'')
                  (JObj [(''iss'', JStr ''iss-1''), (''iat'', JNum 1150), (''exp'', JNum 2350),
                         (''aud'', JStr ''appstoreconnect-v1'')])
                  ''PEM'' ''ES256'' (JObj [(''kid'', JStr ''key-1''), (''typ'', JStr ''JWT'')])]\<rparr>,
      demo_client\<lparr>token := Some ''jwt.1150'', token_expiry := Some 2290000000\<rparr>)"
  by (simp add: sign_token_def demo_world_def demo_client_def init_def
      demo_encode_def jwt_payload_def jwt_headers_def Let_def time_time_int_def minutes19_def
      str_int_def str_nat.simps digit_char_def)

lemma str_int_20: "str_int 20 = ''20''"
  by (simp add: str_int_def str_nat.simps digit_char_def)

lemma str_int_5: "str_int 5 = ''5''"
  by (simp add: str_int_def str_nat.simps digit_char_def)

subsection \<open>Chunks and writes\<close>

lemma concat_iter_content: "0 < n \<Longrightarrow> concat (iter_content n bs) = bs"
proof (induction n bs rule: iter_content.induct)
  case (1 n bs)
  show ?case
  proof (cases "bs = []")
    case True
    then show ?thesis by (simp add: iter_content.simps)
  next
    case False
    with "1.prems" have "iter_content n bs = take n bs # iter_content n (drop n bs)"
      by (subst iter_content.simps) simp
    moreover from "1.IH" "1.prems" False have "concat (iter_content n (drop n bs)) = drop n bs"
      by simp
    ultimately show ?thesis by simp
  qed
qed

lemma iter_content_chunks:
  "chunk \<in> set (iter_content n bs) \<Longrightarrow> chunk \<noteq> [] \<and> length chunk \<le> n"
proof (induction n bs rule: iter_content.induct)
  case (1 n bs)
  show ?case
  proof (cases "n = 0 \<or> bs = []")
    case True
    with "1.prems" show ?thesis by (simp add: iter_content.simps)
  next
    case False
    then have "iter_content n bs = take n bs # iter_content n (drop n bs)"
      by (subst iter_content.simps) simp
    with "1.prems" have "chunk = take n bs \<or> chunk \<in> set (iter_content n (drop n bs))"
      by simp
    then show ?thesis
    proof
      assume "chunk = take n bs"
      with False show ?thesis by simp
    next
      assume "chunk \<in> set (iter_content n (drop n bs))"
      with "1.IH" False show ?thesis by simp
    qed
  qed
qed

lemma write_chunks_files:
  "files w path = Some old \<Longrightarrow>
   files (write_chunks w path chunks) path = Some (old @ concat chunks)"
proof (induction chunks arbitrary: w old)
  case Nil
  then show ?case by simp
next
  case (Cons chunk chunks)
  have "files (f_write w path chunk) path = Some (old @ chunk)"
    using Cons.prems by (simp add: f_write_def)
  from Cons.IH [OF this] show ?case by simp
qed

lemma write_chunks_log:
  "log (write_chunks w path chunks) = log w @ map (Wrote path) chunks"
proof (induction chunks arbitrary: w)
  case Nil
  show ?case by simp
next
  case (Cons chunk chunks)
  have "log (f_write w path chunk) = log w @ [Wrote path chunk]"
    by (simp add: f_write_def)
  with Cons.IH [of "f_write w path chunk"] show ?case by simp
qed

lemma written_chunks_map_Wrote: "written_chunks p (map (Wrote p) chunks) = chunks"
  by (induction chunks) simp_all

lemma iter_content_two:
  fixes x y z :: char
  shows "iter_content 8192 (replicate 8192 x @ [y, z]) = [replicate 8192 x, [y, z]]"
proof -
  have "iter_content 8192 (replicate 8192 x @ [y, z]) =
      replicate 8192 x # iter_content 8192 [y, z]"
    by (subst iter_content.simps) simp
  also have "iter_content 8192 [y, z] = [y, z] # iter_content 8192 []"
    by (subst iter_content.simps) simp
  also have "iter_content 8192 [] = []"
    by (subst iter_content.simps) simp
  finally show ?thesis .
qed

subsection \<open>The invariant of the token cache\<close>

lemma token_exps_append: "token_exps (xs @ ys) tok = token_exps xs tok @ token_exps ys tok"
  by (induction xs tok rule: token_exps.induct) (simp_all split: option.splits)


lemma attached_fresh_mono: "attached_fresh pre t rq \<Longrightarrow> attached_fresh (pre @ new) t rq"
  unfolding attached_fresh_def by (auto simp: token_exps_append)













lemma str_int_1150: "str_int 1150 = ''1150''"
  by (simp add: str_int_def str_nat.simps digit_char_def)


subsection \<open>Responses without \<^verbatim>\<open>data\<close>\<close>

text \<open>
  The seven operations that reach the server return their default, the empty list or
  the empty record, when the parsed response is an object without the key \<^verbatim>\<open>data\<close>.
\<close>

lemma with_data_no_data:
  assumes "map_of kvs ''data'' = None"
  shows "with_data dflt (Inr (JObj kvs), w', c') = (Inr dflt, w', c')"
  using assms by (simp add: with_data_def)

lemma no_data_defaults:
  assumes nd: "map_of kvs ''data'' = None"
  shows "make_request w c (''/apps/'' @ app_id c @ ''/ciWorkflows'') ''GET'' None
           = (Inr (JObj kvs), w', c') \<Longrightarrow> list_workflows w c = (Inr (JArr []), w', c')"
    and "make_request w c (''/ciWorkflows/'' @ i) ''GET'' None
           = (Inr (JObj kvs), w', c') \<Longrightarrow> get_workflow w c i = (Inr (JObj []), w', c')"
    and "make_request w c (list_builds_endpoint c wid limit) ''GET'' None
           = (Inr (JObj kvs), w', c') \<Longrightarrow> list_builds w c wid limit = (Inr (JArr []), w', c')"
    and "make_request w c (''/ciBuildRuns/'' @ i) ''GET'' None
           = (Inr (JObj kvs), w', c') \<Longrightarrow> get_build w c i = (Inr (JObj []), w', c')"
    and "make_request w c (''/ciWorkflows/'' @ i @ ''/builds'') ''POST''
             (Some (trigger_data branch tag commit))
           = (Inr (JObj kvs), w', c') \<Longrightarrow>
         trigger_build w c i branch tag commit = (Inr (JObj []), w', c')"
    and "make_request w c (''/ciBuildRuns/'' @ i @ ''/retry'') ''POST'' None
           = (Inr (JObj kvs), w', c') \<Longrightarrow> retry_build w c i = (Inr (JObj []), w', c')"
    and "make_request w c (''/ciBuildRuns/'' @ i @ ''/artifacts'') ''GET'' None
           = (Inr (JObj kvs), w', c') \<Longrightarrow> get_build_artifacts w c i = (Inr (JArr []), w', c')"
  by (simp_all add: with_data_no_data [OF nd] list_workflows_def get_workflow_def list_builds_def
      get_build_def trigger_build_def retry_build_def get_build_artifacts_def)

section \<open>The claims\<close>

subsection \<open>Cancelling a build\<close>

text \<open>
  C1. The claim: \<^verbatim>\<open>cancel_build\<close> issues an HTTP PATCH to the build resource whose body
  marks the build canceled, and the call does not fail before the exchange. The code does
  otherwise: \<^verbatim>\<open>cancel_build\<close> passes the method \<^verbatim>\<open>'PATCH'\<close>, and \<^verbatim>\<open>_make_request\<close> has
  branches for GET, POST and DELETE only. For every world, client and build id the call
  ends in an error, the \<^verbatim>\<open>ValueError\<close> of line 76 once a token was obtained, and no
  request is sent.
\<close>

theorem cancel_build_unsupported:
  "cancel_build w c build_id =
     (case generate_jwt_token w c of
        (Inl e, w1, c1) \<Rightarrow> (Inl e, w1, c1)
      | (Inr tok, w1, c1) \<Rightarrow> (Inl (ValueError ''Unsupported method: PATCH''), w1, c1))
   \<and> sent_requests (log (fst (snd (cancel_build w c build_id)))) = sent_requests (log w)"
proof (cases "generate_jwt_token w c")
  case (fields r w1 c1)
  show ?thesis
  proof (cases r)
    case (Inl e)
    with fields have "cancel_build w c build_id = (Inl e, w1, c1)"
      by (simp add: cancel_build_def make_request_token_error with_data_Inl)
    with fields Inl generate_sent(1) [OF fields] show ?thesis by simp
  next
    case (Inr tok)
    with fields have "cancel_build w c build_id =
        (Inl (ValueError ''Unsupported method: PATCH''), w1, c1)"
      by (simp add: cancel_build_def make_request_unsupported with_data_Inl)
    with fields Inr generate_sent(1) [OF fields] show ?thesis by simp
  qed
qed

subsection \<open>A response without \<^verbatim>\<open>data\<close>\<close>

text \<open>
  C9. The claim: on a 2xx response whose JSON object has no key \<^verbatim>\<open>data\<close>, every
  resource operation returns an empty result. \<^verbatim>\<open>cancel_build\<close> does not: with a server
  that answers 200 and \<^verbatim>\<open>{}\<close>, it raises the \<^verbatim>\<open>ValueError\<close> of line 76 and never
  sees the response.
\<close>

theorem cancel_build_no_data_fails:
  "fst (cancel_build (demo_world 0 (Some \<lparr>status_code = 200, content = ''{}''\<rparr>) (Some (JObj [])))
          demo_client ''build-1'')
     = Inl (ValueError ''Unsupported method: PATCH'')"
  by (simp add: cancel_build_def make_request_def generate_jwt_token_def sign_token_def
      demo_world_def demo_client_def init_def demo_encode_def jwt_payload_def jwt_headers_def
      with_data_def Let_def)

subsection \<open>The dispatcher and the status of the response\<close>




subsection \<open>The token cache\<close>

text \<open>
  C3. \<^verbatim>\<open>_generate_jwt_token\<close> returns the cached token, leaving the world and the
  client as they are (so without signing), when a non-empty token is cached and the clock
  is before the stored instant; otherwise it is the signer. A successful signing at
  \<open>now w\<close> stores the token with the instant \<open>now w + 1200 s - 60 s\<close>, the nominal
  expiry less the margin, and logs one call of \<^verbatim>\<open>jwt.encode\<close>. Hence every call
  before that instant (1100 s after issuance, say) returns the identical token, and every
  call from that instant on (1150 s, say) signs again.
\<close>

theorem generate_jwt_token_cache:
  "(\<forall>t e. token c = Some t \<and> t \<noteq> [] \<and> token_expiry c = Some e \<and> now w < e \<longrightarrow>
       generate_jwt_token w c = (Inr t, w, c))
   \<and> (token c = None \<or> token c = Some [] \<or> token_expiry c = None
         \<or> (\<exists>e. token_expiry c = Some e \<and> e \<le> now w) \<longrightarrow>
       generate_jwt_token w c = sign_token w c)
   \<and> (\<forall>tok w' c'. sign_token w c = (Inr tok, w', c') \<longrightarrow>
         token c' = Some tok
       \<and> token_expiry c' = Some (now w + 1200000000 - 60000000)
       \<and> length (signed_calls (log w')) = length (signed_calls (log w)) + 1
       \<and> (tok \<noteq> [] \<longrightarrow>
            (\<forall>v. now v < now w + 1200000000 - 60000000 \<longrightarrow>
                 generate_jwt_token v c' = (Inr tok, v, c'))
          \<and> (\<forall>v. now w + 1200000000 - 60000000 \<le> now v \<longrightarrow>
                 generate_jwt_token v c' = sign_token v c')))"
proof (intro conjI allI impI)
  fix t e
  assume "token c = Some t \<and> t \<noteq> [] \<and> token_expiry c = Some e \<and> now w < e"
  then show "generate_jwt_token w c = (Inr t, w, c)"
    by (simp add: generate_jwt_token_def)
next
  assume "token c = None \<or> token c = Some [] \<or> token_expiry c = None
         \<or> (\<exists>e. token_expiry c = Some e \<and> e \<le> now w)"
  then show "generate_jwt_token w c = sign_token w c"
    by (auto simp: generate_jwt_token_def split: option.splits)
next
  fix tok w' c'
  assume s: "sign_token w c = (Inr tok, w', c')"
  from sign_token_cases [OF s] obtain key where
    c': "c' = c\<lparr>token := Some tok, token_expiry := Some (now w + minutes19)\<rparr>" and
    w': "w' = w\<lparr>log := log w @ [Signed (Some tok) (jwt_payload w c) key ''ES256'' (jwt_headers c)]\<rparr>"
    by auto
  show "token c' = Some tok" by (simp add: c')
  show "token_expiry c' = Some (now w + 1200000000 - 60000000)"
    by (simp add: c' minutes19_def)
  show "length (signed_calls (log w')) = length (signed_calls (log w)) + 1"
    by (simp add: w' signed_calls_append)
  {
    fix v :: world
    assume "tok \<noteq> []" and "now v < now w + 1200000000 - 60000000"
    then show "generate_jwt_token v c' = (Inr tok, v, c')"
      by (simp add: generate_jwt_token_def c' minutes19_def)
  }
  {
    fix v :: world
    assume "now w + 1200000000 - 60000000 \<le> now v"
    then show "generate_jwt_token v c' = sign_token v c'"
      by (simp add: generate_jwt_token_def c' minutes19_def)
  }
qed

theorem generate_jwt_token_cache_witness:
  "fst (generate_jwt_token (demo_world 0 None None) demo_client) = Inr ''jwt.0''
   \<and> snd (snd (generate_jwt_token (demo_world 0 None None) demo_client)) =
        demo_client\<lparr>token := Some ''jwt.0'', token_expiry := Some 1140000000\<rparr>
   \<and> generate_jwt_token (demo_world 600000000 None None)
        (demo_client\<lparr>token := Some ''jwt.0'', token_expiry := Some 1140000000\<rparr>) =
      (Inr ''jwt.0'', demo_world 600000000 None None,
       demo_client\<lparr>token := Some ''jwt.0'', token_expiry := Some 1140000000\<rparr>)
   \<and> generate_jwt_token (demo_world 1100000000 None None)
        (demo_client\<lparr>token := Some ''jwt.0'', token_expiry := Some 1140000000\<rparr>) =
      (Inr ''jwt.0'', demo_world 1100000000 None None,
       demo_client\<lparr>token := Some ''jwt.0'', token_expiry := Some 1140000000\<rparr>)
   \<and> fst (generate_jwt_token (demo_world 1150000000 None None)
        (demo_client\<lparr>token := Some ''jwt.0'', token_expiry := Some 1140000000\<rparr>)) =
      Inr ''jwt.1150''"
proof -
  let ?c1 = "demo_client\<lparr>token := Some ''jwt.0'', token_expiry := Some 1140000000\<rparr>"
  note inst = generate_jwt_token_cache [of demo_client "demo_world 0 None None"]
  have none: "token demo_client = None"
    by (simp add: demo_client_def init_def)
  from inst none have first: "generate_jwt_token (demo_world 0 None None) demo_client =
      sign_token (demo_world 0 None None) demo_client"
    by blast
  from inst demo_sign_0 [of None None]
  have cached: "now v < now (demo_world 0 None None) + 1200000000 - 60000000 \<Longrightarrow>
      generate_jwt_token v ?c1 = (Inr ''jwt.0'', v, ?c1)"
    and again: "now (demo_world 0 None None) + 1200000000 - 60000000 \<le> now v \<Longrightarrow>
      generate_jwt_token v ?c1 = sign_token v ?c1" for v
    by auto
  show ?thesis
    using cached [of "demo_world 600000000 None None"]
      cached [of "demo_world 1100000000 None None"]
      again [of "demo_world 1150000000 None None"]
    by (simp add: first demo_sign_0 demo_sign_1150 demo_world_sel)
qed

subsection \<open>The signer\<close>

text \<open>
  C7. A successful signing reads the private key from the configured path and calls
  \<^verbatim>\<open>jwt.encode\<close> once, with the claims \<^verbatim>\<open>iss\<close> (the issuer id), \<^verbatim>\<open>iat\<close> (the
  clock in whole seconds), \<^verbatim>\<open>exp\<close> (\<^verbatim>\<open>iat\<close> plus 1200) and \<^verbatim>\<open>aud\<close>
  (\<^verbatim>\<open>appstoreconnect-v1\<close>), that key, the algorithm ES256 and the headers \<^verbatim>\<open>kid\<close> (the
  key id) and \<^verbatim>\<open>typ\<close> (\<^verbatim>\<open>JWT\<close>); the token is what that call returned.
\<close>

theorem sign_token_claims:
  assumes "sign_token w c = (Inr tok, w', c')"
  shows "\<exists>key. files w (private_key_path c) = Some key
       \<and> log w' = log w @
           [Signed (Some tok)
              (JObj [(''iss'', JStr (issuer_id c)),
                     (''iat'', JNum (time_time_int w)),
                     (''exp'', JNum (time_time_int w + 1200)),
                     (''aud'', JStr ''appstoreconnect-v1'')])
              key ''ES256''
              (JObj [(''kid'', JStr (key_id c)), (''typ'', JStr ''JWT'')])]
       \<and> jwt_encode w
              (JObj [(''iss'', JStr (issuer_id c)),
                     (''iat'', JNum (time_time_int w)),
                     (''exp'', JNum (time_time_int w + 1200)),
                     (''aud'', JStr ''appstoreconnect-v1'')])
              key ''ES256''
              (JObj [(''kid'', JStr (key_id c)), (''typ'', JStr ''JWT'')]) = Some tok
       \<and> token c' = Some tok
       \<and> (0 \<le> now w \<longrightarrow>
            time_time_int w * 1000000 \<le> now w \<and> now w < (time_time_int w + 1) * 1000000)"
proof -
  from sign_token_cases [OF assms] obtain key where
    "files w (private_key_path c) = Some key"
    "jwt_encode w (jwt_payload w c) key ''ES256'' (jwt_headers c) = Some tok"
    "c' = c\<lparr>token := Some tok, token_expiry := Some (now w + minutes19)\<rparr>"
    "w' = w\<lparr>log := log w @ [Signed (Some tok) (jwt_payload w c) key ''ES256'' (jwt_headers c)]\<rparr>"
    by auto
  moreover have "0 \<le> now w \<longrightarrow>
      time_time_int w * 1000000 \<le> now w \<and> now w < (time_time_int w + 1) * 1000000"
    using div_million [of "now w"] by (simp add: time_time_int_def algebra_simps)
  ultimately show ?thesis
    by (simp add: jwt_payload_def jwt_headers_def)
qed

theorem sign_token_claims_witness:
  "log (fst (snd (sign_token (demo_world 5500000 None None) demo_client))) =
     [Signed (Some ''jwt.5'')
        (JObj [(''iss'', JStr ''iss-1''), (''iat'', JNum 5), (''exp'', JNum 1205),
               (''aud'', JStr ''appstoreconnect-v1'')])
        ''PEM'' ''ES256'' (JObj [(''kid'', JStr ''key-1''), (''typ'', JStr ''JWT'')])]
   \<and> time_time_int (demo_world 5500000 None None) * 1000000 \<le> 5500000
   \<and> 5500000 < (time_time_int (demo_world 5500000 None None) + 1) * 1000000"
  using sign_token_claims [OF demo_sign, of None None]
  by (auto simp: demo_sign demo_world_sel)

subsection \<open>Triggering a build\<close>

text \<open>
  C5. \<^verbatim>\<open>trigger_build\<close> sends one POST to the workflow's builds whose body is
  \<^verbatim>\<open>{"data": {"type": "ciBuildRuns", "attributes": A}}\<close>. With exactly one of branch,
  tag and commit given (not \<^verbatim>\<open>None\<close> and not empty), \<open>A\<close> holds that attribute with
  the given value and nothing else; with none given, \<open>A\<close> is empty.
\<close>

theorem trigger_build_body:
  assumes tok: "generate_jwt_token w c = (Inr tok, w1, c1)"
  shows "sent_requests (log (fst (snd (trigger_build w c wid branch tag commit)))) =
           sent_requests (log w) @
             [\<lparr>rq_method = ''POST'', rq_url = base_url c @ ''/ciWorkflows/'' @ wid @ ''/builds'',
               rq_headers = auth_headers tok,
               rq_json = Some (JObj [(''data'',
                   JObj [(''type'', JStr ''ciBuildRuns''),
                         (''attributes'', JObj (trigger_attributes branch tag commit))])]),
               rq_stream = False\<rparr>]
       \<and> (\<forall>b. branch = Some b \<and> b \<noteq> [] \<and> \<not> truthy tag \<and> \<not> truthy commit \<longrightarrow>
             trigger_attributes branch tag commit = [(''branch'', JStr b)])
       \<and> (\<forall>t. \<not> truthy branch \<and> tag = Some t \<and> t \<noteq> [] \<and> \<not> truthy commit \<longrightarrow>
             trigger_attributes branch tag commit = [(''tag'', JStr t)])
       \<and> (\<forall>m. \<not> truthy branch \<and> \<not> truthy tag \<and> commit = Some m \<and> m \<noteq> [] \<longrightarrow>
             trigger_attributes branch tag commit = [(''commit'', JStr m)])
       \<and> (\<not> truthy branch \<and> \<not> truthy tag \<and> \<not> truthy commit \<longrightarrow>
             trigger_attributes branch tag commit = [])"
proof -
  have "snd (trigger_build w c wid branch tag commit) =
      snd (make_request w c (''/ciWorkflows/'' @ wid @ ''/builds'') ''POST''
             (Some (trigger_data branch tag commit)))"
    by (simp add: trigger_build_def with_data_snd)
  then have "sent_requests (log (fst (snd (trigger_build w c wid branch tag commit)))) =
           sent_requests (log w) @
             [\<lparr>rq_method = ''POST'', rq_url = base_url c @ ''/ciWorkflows/'' @ wid @ ''/builds'',
               rq_headers = auth_headers tok,
               rq_json = Some (trigger_data branch tag commit),
               rq_stream = False\<rparr>]"
    by (simp add: make_request_sends [OF tok] sent_requests_append generate_sent(1) [OF tok])
  then show ?thesis
    by (auto simp: trigger_data_def trigger_attributes_def)
qed

theorem trigger_build_body_witness:
  "sent_requests (log (fst (snd (trigger_build (demo_world 0 None None) demo_client ''wf-42''
       (Some ''main'') None None)))) =
     [\<lparr>rq_method = ''POST'',
       rq_url = ''https://api.appstoreconnect.apple.com/v1/ciWorkflows/wf-42/builds'',
       rq_headers = [(''Authorization'', ''Bearer jwt.0''), (''Content-Type'', ''application/json'')],
       rq_json = Some (JObj [(''data'',
           JObj [(''type'', JStr ''ciBuildRuns''),
                 (''attributes'', JObj [(''branch'', JStr ''main'')])])]),
       rq_stream = False\<rparr>]
   \<and> sent_requests (log (fst (snd (trigger_build (demo_world 0 None None) demo_client ''wf-42''
       None None None)))) =
     [\<lparr>rq_method = ''POST'',
       rq_url = ''https://api.appstoreconnect.apple.com/v1/ciWorkflows/wf-42/builds'',
       rq_headers = [(''Authorization'', ''Bearer jwt.0''), (''Content-Type'', ''application/json'')],
       rq_json = Some (JObj [(''data'',
           JObj [(''type'', JStr ''ciBuildRuns''), (''attributes'', JObj [])])]),
       rq_stream = False\<rparr>]
   \<and> trigger_attributes None (Some ''v1.0'') None = [(''tag'', JStr ''v1.0'')]
   \<and> trigger_attributes None None (Some ''abc123'') = [(''commit'', JStr ''abc123'')]"
  using trigger_build_body [OF demo_generate, of None None "''wf-42''" "Some ''main''" None None]
    trigger_build_body [OF demo_generate, of None None "''wf-42''" None None None]
    trigger_build_body [OF demo_generate, of None None "''wf-42''" None "Some ''v1.0''" None]
    trigger_build_body [OF demo_generate, of None None "''wf-42''" None None "Some ''abc123''"]
  by (simp add: demo_world_sel demo_client_def init_def auth_headers_def)

text \<open>
  C10. An empty string for branch, tag or commit makes the same call as leaving it out.
  With several given, the first of branch, tag, commit is the only attribute of the body:
  a branch hides tag and commit, and without a branch a tag hides the commit.
\<close>

theorem trigger_build_precedence:
  "trigger_build w c wid (Some []) tag commit = trigger_build w c wid None tag commit
   \<and> trigger_build w c wid branch (Some []) commit = trigger_build w c wid branch None commit
   \<and> trigger_build w c wid branch tag (Some []) = trigger_build w c wid branch tag None
   \<and> (b \<noteq> [] \<longrightarrow>
        trigger_build w c wid (Some b) tag commit = trigger_build w c wid (Some b) None None
        \<and> trigger_data (Some b) tag commit =
            JObj [(''data'', JObj [(''type'', JStr ''ciBuildRuns''),
                                   (''attributes'', JObj [(''branch'', JStr b)])])])
   \<and> (\<not> truthy branch \<and> t \<noteq> [] \<longrightarrow>
        trigger_build w c wid branch (Some t) commit = trigger_build w c wid None (Some t) None
        \<and> trigger_data branch (Some t) commit =
            JObj [(''data'', JObj [(''type'', JStr ''ciBuildRuns''),
                                   (''attributes'', JObj [(''tag'', JStr t)])])])
   \<and> (\<not> truthy branch \<and> \<not> truthy tag \<and> m \<noteq> [] \<longrightarrow>
        trigger_data branch tag (Some m) =
            JObj [(''data'', JObj [(''type'', JStr ''ciBuildRuns''),
                                   (''attributes'', JObj [(''commit'', JStr m)])])])"
  by (simp add: trigger_build_def trigger_data_def trigger_attributes_def)

theorem trigger_build_precedence_witness:
  "trigger_data (Some ''main'') (Some ''v1.0'') (Some ''abc123'') =
     JObj [(''data'', JObj [(''type'', JStr ''ciBuildRuns''),
                            (''attributes'', JObj [(''branch'', JStr ''main'')])])]
   \<and> trigger_data (Some '''') (Some ''v1.0'') (Some ''abc123'') =
     JObj [(''data'', JObj [(''type'', JStr ''ciBuildRuns''),
                            (''attributes'', JObj [(''tag'', JStr ''v1.0'')])])]
   \<and> trigger_data None (Some '''') (Some ''abc123'') =
     JObj [(''data'', JObj [(''type'', JStr ''ciBuildRuns''),
                            (''attributes'', JObj [(''commit'', JStr ''abc123'')])])]"
  using trigger_build_precedence [where tag = "Some ''v1.0''" and commit = "Some ''abc123''"
      and branch = "Some ''''" and b = "''main''" and t = "''v1.0''" and m = "''abc123''"]
    trigger_build_precedence [where tag = "Some ''''" and commit = "Some ''abc123''"
      and branch = None and b = "''main''" and t = "''v1.0''" and m = "''abc123''"]
  by simp

subsection \<open>Listing builds\<close>

text \<open>
  C6. The claim: \<^verbatim>\<open>list_builds\<close> returns at most \<open>limit\<close> entries. The limit only
  goes into the query string; nothing in the client cuts the answer. With \<open>limit = 1\<close>
  and a server that sends two builds, two builds are returned.
\<close>

theorem list_builds_exceeds_limit:
  "fst (list_builds
      (demo_world 0 (Some \<lparr>status_code = 200, content = ''{\"data\":[{\"id\":\"b1\"},{\"id\":\"b2\"}]}''\<rparr>)
         (Some (JObj [(''data'', JArr [JObj [(''id'', JStr ''b1'')], JObj [(''id'', JStr ''b2'')]])])))
      demo_client (Some ''wf-42'') (Some 1))
     = Inr (JArr [JObj [(''id'', JStr ''b1'')], JObj [(''id'', JStr ''b2'')]])
   \<and> \<not> length [JObj [(''id'', JStr ''b1'')], JObj [(''id'', JStr ''b2'')]] \<le> (1::nat)"
proof -
  let ?r = "\<lparr>status_code = 200, content = ''{\"data\":[{\"id\":\"b1\"},{\"id\":\"b2\"}]}''\<rparr>"
  let ?j = "JObj [(''data'', JArr [JObj [(''id'', JStr ''b1'')], JObj [(''id'', JStr ''b2'')]])]"
  let ?w = "demo_world 0 (Some ?r) (Some ?j)"
  have "fst (make_request ?w demo_client (list_builds_endpoint demo_client (Some ''wf-42'') (Some 1))
               ''GET'' None) = finish_request ?w (Some ?r)"
    by (simp add: make_request_sends [OF demo_generate] demo_world_sel)
  then show ?thesis
    by (simp add: list_builds_def with_data_fst finish_request_def raise_for_status_def
        response_json_def demo_world_sel)
qed

text \<open>
  C6, amended. \<^verbatim>\<open>list_builds\<close> sends one GET: to the workflow's builds when a
  workflow id is given (not \<^verbatim>\<open>None\<close> and not empty), to the app's build runs otherwise,
  with \<^verbatim>\<open>?limit=\<close> and the limit (20 when left out) appended. On a response that is
  not an error and whose body is a JSON object, it returns the value under \<^verbatim>\<open>data\<close>
  whole, whatever its length, and the empty list when the key is absent.
\<close>

theorem list_builds_returns_data:
  assumes tok: "generate_jwt_token w c = (Inr tok, w1, c1)"
    and resp: "http w \<lparr>rq_method = ''GET'',
                        rq_url = base_url c @ list_builds_endpoint c workflow_id limit,
                        rq_headers = auth_headers tok, rq_json = None, rq_stream = False\<rparr> = Some r"
    and ok: "status_code r < 400 \<or> 600 \<le> status_code r"
    and body: "json_loads w (content r) = Some (JObj kvs)"
  shows "(\<forall>i. workflow_id = Some i \<and> i \<noteq> [] \<longrightarrow>
            list_builds_endpoint c workflow_id limit =
              ''/ciWorkflows/'' @ i @ ''/builds?limit='' @ str_int (case limit of None \<Rightarrow> 20 | Some l \<Rightarrow> l))
       \<and> (\<not> truthy workflow_id \<longrightarrow>
            list_builds_endpoint c workflow_id limit =
              ''/apps/'' @ app_id c @ ''/ciBuildRuns?limit='' @ str_int (case limit of None \<Rightarrow> 20 | Some l \<Rightarrow> l))
       \<and> sent_requests (log (fst (snd (list_builds w c workflow_id limit)))) =
            sent_requests (log w) @
              [\<lparr>rq_method = ''GET'', rq_url = base_url c @ list_builds_endpoint c workflow_id limit,
                rq_headers = auth_headers tok, rq_json = None, rq_stream = False\<rparr>]
       \<and> fst (list_builds w c workflow_id limit) =
            Inr (case map_of kvs ''data'' of None \<Rightarrow> JArr [] | Some v \<Rightarrow> v)"
proof -
  let ?ep = "list_builds_endpoint c workflow_id limit"
  have m: "''GET'' = ''GET'' \<or> ''GET'' = ''POST'' \<or> ''GET'' = ''DELETE''" by simp
  note eq = make_request_sends [OF tok m, of ?ep None]
  have "finish_request w (Some r) = Inr (JObj kvs)"
    using ok body by (auto simp: finish_request_def raise_for_status_def response_json_def)
  then have "fst (list_builds w c workflow_id limit) =
      Inr (case map_of kvs ''data'' of None \<Rightarrow> JArr [] | Some v \<Rightarrow> v)"
    using resp by (simp add: list_builds_def with_data_fst eq)
  moreover have "sent_requests (log (fst (snd (list_builds w c workflow_id limit)))) =
            sent_requests (log w) @
              [\<lparr>rq_method = ''GET'', rq_url = base_url c @ ?ep,
                rq_headers = auth_headers tok, rq_json = None, rq_stream = False\<rparr>]"
    by (simp add: list_builds_def with_data_snd eq sent_requests_append generate_sent(1) [OF tok])
  ultimately show ?thesis
    by (auto simp: list_builds_endpoint_def)
qed

theorem list_builds_returns_data_witness:
  "sent_requests (log (fst (snd (list_builds
      (demo_world 0 (Some \<lparr>status_code = 200, content = ''{\"data\":[{\"id\":\"b1\"}]}''\<rparr>)
         (Some (JObj [(''data'', JArr [JObj [(''id'', JStr ''b1'')]])])))
      demo_client (Some ''wf-42'') (Some 5))))) =
     [\<lparr>rq_method = ''GET'',
       rq_url = ''https://api.appstoreconnect.apple.com/v1/ciWorkflows/wf-42/builds?limit=5'',
       rq_headers = [(''Authorization'', ''Bearer jwt.0''), (''Content-Type'', ''application/json'')],
       rq_json = None, rq_stream = False\<rparr>]
   \<and> fst (list_builds
      (demo_world 0 (Some \<lparr>status_code = 200, content = ''{\"data\":[{\"id\":\"b1\"}]}''\<rparr>)
         (Some (JObj [(''data'', JArr [JObj [(''id'', JStr ''b1'')]])])))
      demo_client (Some ''wf-42'') (Some 5)) = Inr (JArr [JObj [(''id'', JStr ''b1'')]])
   \<and> list_builds_endpoint demo_client None None = ''/apps/app-7/ciBuildRuns?limit=20''"
proof -
  let ?r = "\<lparr>status_code = 200, content = ''{\"data\":[{\"id\":\"b1\"}]}''\<rparr>"
  let ?j = "JObj [(''data'', JArr [JObj [(''id'', JStr ''b1'')]])]"
  let ?w = "demo_world 0 (Some ?r) (Some ?j)"
  have ok: "status_code ?r < 400 \<or> 600 \<le> status_code ?r" by simp
  note a = list_builds_returns_data [where w = ?w and r = ?r
      and workflow_id = "Some ''wf-42''" and limit = "Some 5",
      OF demo_generate demo_world_sel(1) ok demo_world_sel(2)]
  note b = list_builds_returns_data [where w = ?w and r = ?r
      and workflow_id = None and limit = None,
      OF demo_generate demo_world_sel(1) ok demo_world_sel(2)]
  from a b show ?thesis
    by (simp add: demo_world_sel demo_client_def init_def auth_headers_def str_int_5 str_int_20)
qed

subsection \<open>Downloading an artifact\<close>

text \<open>
  C8. When \<^verbatim>\<open>download_artifact\<close> succeeds, the file at the destination holds the body of
  the response byte for byte. It was written by one \<^verbatim>\<open>f.write\<close> per piece of
  \<^verbatim>\<open>iter_content(chunk_size=8192)\<close>: the pieces are not empty, none is longer than 8192
  bytes, and together they are the body. (How much memory the transport itself uses is
  outside the model; mid-stream transport errors are not modelled.)
\<close>

theorem download_artifact_writes:
  assumes "download_artifact w c artifact_id output_path = (Inr v, w', c')"
  shows "\<exists>tok r. fst (generate_jwt_token w c) = Inr tok
      \<and> http w \<lparr>rq_method = ''GET'',
                 rq_url = base_url c @ ''/ciArtifacts/'' @ artifact_id @ ''/download'',
                 rq_headers = [(''Authorization'', ''Bearer '' @ tok)],
                 rq_json = None, rq_stream = True\<rparr> = Some r
      \<and> files w' output_path = Some (content r)
      \<and> written_chunks output_path (log w') =
          written_chunks output_path (log w) @ iter_content 8192 (content r)
      \<and> concat (iter_content 8192 (content r)) = content r
      \<and> (\<forall>chunk \<in> set (iter_content 8192 (content r)). chunk \<noteq> [] \<and> length chunk \<le> 8192)"
proof -
  obtain g w1 c1 where gen: "generate_jwt_token w c = (g, w1, c1)"
    by (cases "generate_jwt_token w c")
  from assms gen obtain tok where g: "g = Inr tok"
    by (cases g) (simp_all add: download_artifact_def)
  let ?rq = "\<lparr>rq_method = ''GET'',
             rq_url = base_url c @ ''/ciArtifacts/'' @ artifact_id @ ''/download'',
             rq_headers = [(''Authorization'', ''Bearer '' @ tok)],
             rq_json = None, rq_stream = True\<rparr>"
  let ?w2 = "w1\<lparr>log := log w1 @ [Sent (now w1) ?rq]\<rparr>"
  note same = generate_sent [OF gen] generate_client(1) [OF gen]
  from assms obtain r where r: "http w ?rq = Some r"
    and ok: "raise_for_status r = None" and wr: "writable w output_path"
    and w': "w' = write_chunks (open_wb ?w2 output_path) output_path (iter_content 8192 (content r))"
    by (auto simp: download_artifact_def gen g requests_send_def same
        split: option.splits if_splits)
  have opened: "files (open_wb ?w2 output_path) output_path = Some []"
    by (simp add: open_wb_def)
  note eff = write_chunks_files [OF opened, of "iter_content 8192 (content r)"]
  have cc: "concat (iter_content 8192 (content r)) = content r"
    by (rule concat_iter_content) simp
  from generate_world [OF gen] obtain evs where
    evs: "w1 = w\<lparr>log := log w @ evs\<rparr>" "\<forall>p. written_chunks p evs = []"
    by auto
  have "log w1 = log w @ evs"
    by (subst evs(1)) simp
  then have "written_chunks output_path (log w') =
      written_chunks output_path (log w) @ iter_content 8192 (content r)"
    using evs(2)
    by (simp add: w' write_chunks_log open_wb_def written_chunks_append
        written_chunks_map_Wrote)
  moreover have "files w' output_path = Some (content r)"
    using eff cc by (simp add: w')
  moreover have "\<forall>chunk \<in> set (iter_content 8192 (content r)). chunk \<noteq> [] \<and> length chunk \<le> 8192"
    using iter_content_chunks by blast
  ultimately show ?thesis
    using r cc gen g by auto
qed

theorem download_artifact_writes_witness:
  "files (fst (snd (download_artifact
      (demo_world 0 (Some \<lparr>status_code = 200, content = replicate 8192 CHR ''a'' @ ''bc''\<rparr>) None)
      demo_client ''art-1'' ''out.zip''))) ''out.zip''
     = Some (replicate 8192 CHR ''a'' @ ''bc'')
   \<and> written_chunks ''out.zip'' (log (fst (snd (download_artifact
      (demo_world 0 (Some \<lparr>status_code = 200, content = replicate 8192 CHR ''a'' @ ''bc''\<rparr>) None)
      demo_client ''art-1'' ''out.zip''))))
     = [replicate 8192 CHR ''a'', ''bc'']"
proof -
  let ?r = "\<lparr>status_code = 200, content = replicate 8192 CHR ''a'' @ ''bc''\<rparr>"
  let ?w = "demo_world 0 (Some ?r) None"
  let ?d = "download_artifact ?w demo_client ''art-1'' ''out.zip''"
  have "fst ?d = Inr JNull"
    by (simp add: download_artifact_def demo_generate requests_send_def raise_for_status_def
        demo_world_sel)
  then have eq: "?d = (Inr JNull, fst (snd ?d), snd (snd ?d))"
    by (cases ?d) simp
  from download_artifact_writes [OF eq] obtain r where
    "http ?w \<lparr>rq_method = ''GET'',
               rq_url = base_url demo_client @ ''/ciArtifacts/'' @ ''art-1'' @ ''/download'',
               rq_headers = [(''Authorization'', ''Bearer '' @ ''jwt.0'')],
               rq_json = None, rq_stream = True\<rparr> = Some r"
    and files: "files (fst (snd ?d)) ''out.zip'' = Some (content r)"
    and chunks: "written_chunks ''out.zip'' (log (fst (snd ?d))) =
      written_chunks ''out.zip'' (log ?w) @ iter_content 8192 (content r)"
    by (auto simp: demo_generate)
  then have "r = ?r"
    by (simp add: demo_world_sel)
  with files chunks show ?thesis
    by (simp add: demo_world_sel iter_content_two)
qed

subsection \<open>No stale token\<close>



end
